theory Spec2Isabelle
  imports Main "HOL-Library.Word" "HOL-Library.Multiset"
begin

section \<open>Heresay voice notes: the capture workflow and its stores\<close>

text \<open>
  A shallow embedding of the non-presentational code of the application:
  \<^item> \<^verbatim>\<open>src/components/VoiceRecorder.tsx\<close>: \<open>startRecording\<close>, \<open>stopRecording\<close>, the
    recorder's \<open>onstop\<close> handler, \<open>transcribeAudio\<close>, \<open>correctText\<close>, \<open>saveNote\<close>,
    \<open>reprocessText\<close> and the record button;
  \<^item> \<^verbatim>\<open>src/App.tsx\<close>: \<open>addNote\<close>, \<open>addDictionaryEntry\<close>, \<open>deleteNote\<close>;
  \<^item> the History component: \<open>handleDeleteNote\<close>;
  \<^item> the Dictionary component: \<open>handleAddEntry\<close>.

  React state (\<open>useState\<close>, \<open>useRef\<close>) is one record that every handler takes and
  returns. A call to a hosted collaborator (microphone, file reader, AI provider,
  database) is an entry appended to \<open>calls\<close>; what the collaborator answers is an argument
  of the handler, of type \<open>js_error + 'a\<close>, where \<open>Inl\<close> is a rejected promise. Toasts and
  \<open>console.error\<close> lines are appended to \<open>toasts\<close> and \<open>console\<close>.
\<close>

subsection \<open>Strings\<close>

text \<open>A JavaScript string is a sequence of UTF-16 code units.\<close>

type_synonym jsstring = "16 word list"

text \<open>An ASCII literal of the source as code units.\<close>

definition js :: "string \<Rightarrow> jsstring" where
  "js s = map (\<lambda>c. of_nat (of_char c)) s"

text \<open>
  \<open>String.prototype.trim\<close> strips the code points of the ECMAScript productions
  WhiteSpace (TAB, VT, FF, ZWNBSP and the space separators) and LineTerminator
  (LF, CR, LS, PS) from both ends. All of them are single code units.
\<close>

definition isWhiteSpace :: "16 word \<Rightarrow> bool" where
  "isWhiteSpace c \<longleftrightarrow>
     c = 0x0009 \<or> c = 0x000A \<or> c = 0x000B \<or> c = 0x000C \<or> c = 0x000D \<or>
     c = 0x0020 \<or> c = 0x00A0 \<or> c = 0x1680 \<or> (0x2000 \<le> c \<and> c \<le> 0x200A) \<or>
     c = 0x2028 \<or> c = 0x2029 \<or> c = 0x202F \<or> c = 0x205F \<or> c = 0x3000 \<or>
     c = 0xFEFF"

definition trimStart :: "jsstring \<Rightarrow> jsstring" where
  "trimStart s = dropWhile isWhiteSpace s"

definition trimEnd :: "jsstring \<Rightarrow> jsstring" where
  "trimEnd s = rev (dropWhile isWhiteSpace (rev s))"

definition trim :: "jsstring \<Rightarrow> jsstring" where
  "trim s = trimEnd (trimStart s)"

text \<open>\<open>Array.prototype.join\<close> on strings.\<close>

fun join :: "jsstring \<Rightarrow> jsstring list \<Rightarrow> jsstring" where
  "join sep [] = []"
| "join sep [x] = x"
| "join sep (x # y # ys) = x @ sep @ join sep (y # ys)"

subsection \<open>Data model\<close>

text \<open>The interfaces of \<^verbatim>\<open>App.tsx\<close>. Field names carry a prefix per record.\<close>

record User =
  u_id :: jsstring
  u_email :: jsstring

record VoiceNote =
  n_id :: jsstring
  n_originalText :: jsstring
  n_correctedText :: jsstring
  n_createdAt :: jsstring
  n_userId :: jsstring

text \<open>
  A dictionary entry as the components read it: \<open>entry.id\<close>, \<open>entry.word\<close> and
  \<open>entry.correct_spelling\<close>.
\<close>

record DictionaryEntry =
  d_id :: jsstring
  d_word :: jsstring
  d_correct_spelling :: jsstring
  d_user_id :: jsstring
  d_created_at :: jsstring

text \<open>The objects handed to \<open>blink.db.voice_notes.create\<close> and
  \<open>blink.db.dictionary_entries.create\<close>.\<close>

record voice_notes_row =
  original_text :: jsstring
  corrected_text :: jsstring
  vn_user_id :: jsstring
  vn_created_at :: jsstring

record dictionary_entries_row =
  word :: jsstring
  correct_spelling :: jsstring
  de_user_id :: jsstring
  de_created_at :: jsstring

type_synonym blob = "8 word list"

subsection \<open>Effects\<close>

datatype js_error = DeviceError | ReadError | ProviderError | StoreError | TypeError

datatype call =
    GetUserMedia
  | ReadAsDataURL blob
  | TranscribeAudio jsstring string
  | GenerateText jsstring string nat
  | VoiceNotesCreate voice_notes_row
  | VoiceNotesDelete jsstring
  | DictionaryEntriesCreate dictionary_entries_row
  | DictionaryEntriesDelete jsstring

datatype toast = ToastSuccess string | ToastError string

subsection \<open>State\<close>

text \<open>
  \<open>user\<close>, \<open>notes_list\<close> (the source's \<open>notes\<close>), \<open>dictionary\<close> are the state of \<open>App\<close>; \<open>isRecording\<close> to
  \<open>audioChunks\<close> the state and refs of \<open>VoiceRecorder\<close>; \<open>selectedNote\<close> the state of
  \<open>History\<close>; \<open>newWord\<close>, \<open>correctSpelling\<close>, \<open>isAdding\<close> the state of \<open>Dictionary\<close>.

  The microphone is modelled by \<open>streams\<close>, the capture streams that were granted and
  whose tracks have not been stopped, numbered in the order of the grants
  (\<open>acquired\<close> counts them). \<open>mediaRecorder\<close> holds the number of the stream of the
  recorder in the ref. \<open>pending\<close> counts the invocations of \<open>startRecording\<close> that are
  suspended at \<open>await getUserMedia\<close>.
\<close>

record state =
  user :: "User option"
  notes_list :: "VoiceNote list"
  dictionary :: "DictionaryEntry list"
  isRecording :: bool
  isTranscribing :: bool
  isProcessing :: bool
  originalText :: jsstring
  correctedText :: jsstring
  audioBlob :: "blob option"
  mediaRecorder :: "nat option"
  audioChunks :: "blob list"
  selectedNote :: "VoiceNote option"
  newWord :: jsstring
  correctSpelling :: jsstring
  isAdding :: bool
  pending :: nat
  streams :: "nat list"
  acquired :: nat
  calls :: "call list"
  toasts :: "toast list"
  console :: "string list"

definition invoke :: "call \<Rightarrow> state \<Rightarrow> state" where
  "invoke c st = st\<lparr>calls := calls st @ [c]\<rparr>"

definition toast_success :: "string \<Rightarrow> state \<Rightarrow> state" where
  "toast_success m st = st\<lparr>toasts := toasts st @ [ToastSuccess m]\<rparr>"

definition toast_error :: "string \<Rightarrow> state \<Rightarrow> state" where
  "toast_error m st = st\<lparr>toasts := toasts st @ [ToastError m]\<rparr>"

definition console_error :: "string \<Rightarrow> state \<Rightarrow> state" where
  "console_error m st = st\<lparr>console := console st @ [m]\<rparr>"

subsection \<open>VoiceRecorder: correctText\<close>

definition dictionaryLine :: "DictionaryEntry \<Rightarrow> jsstring" where
  "dictionaryLine entry =
     js ''- '' @ [0x22] @ d_word entry @ [0x22] @ js '' should be spelled as '' @
     [0x22] @ d_correct_spelling entry @ [0x22]"

definition dictionaryContext :: "DictionaryEntry list \<Rightarrow> jsstring" where
  "dictionaryContext dict =
     (if length dict > 0
      then [0x0A, 0x0A] @ js ''Custom Dictionary (use these correct spellings):'' @ [0x0A] @
           join [0x0A] (map dictionaryLine dict)
      else [])"

definition correctionPrompt :: "DictionaryEntry list \<Rightarrow> jsstring \<Rightarrow> jsstring" where
  "correctionPrompt dict text =
     js ''Please correct the grammar, punctuation, and spelling in this transcribed text. Make it well-formatted and professional while preserving the original meaning and tone. Apply proper capitalization and sentence structure.'' @
     dictionaryContext dict @ [0x0A, 0x0A] @
     js ''Original text: '' @ [0x22] @ text @ [0x22] @ [0x0A, 0x0A] @
     js ''Return only the corrected text without any explanations or formatting.''"

text \<open>
  \<open>correctText dict text resp\<close>: \<open>dict\<close> is the \<open>dictionary\<close> prop of the closure,
  \<open>resp\<close> what \<open>blink.ai.generateText\<close> settles with.
\<close>

definition correctText ::
  "DictionaryEntry list \<Rightarrow> jsstring \<Rightarrow> js_error + jsstring \<Rightarrow> state \<Rightarrow> state" where
  "correctText dict text resp st =
     (let st1 = st\<lparr>isProcessing := True\<rparr>;
          st2 = invoke (GenerateText (correctionPrompt dict text) ''gpt-4o-mini'' 500) st1;
          st3 = (case resp of
                   Inr corrected \<Rightarrow> st2\<lparr>correctedText := trim corrected\<rparr>
                 | Inl e \<Rightarrow>
                     (toast_error ''Failed to correct text''
                        (console_error ''Error correcting text:'' st2))
                       \<lparr>correctedText := text\<rparr>)
      in st3\<lparr>isProcessing := False\<rparr>)"

subsection \<open>VoiceRecorder: recording\<close>

text \<open>
  \<open>startRecording\<close> suspends at \<open>await navigator.mediaDevices.getUserMedia\<close>; other
  handlers can run before it resumes. \<open>startRecording_begin\<close> is the part before the
  await, \<open>startRecording_resume\<close> the part after it. Neither part reads \<open>isRecording\<close>.

  The promise settles with an error (\<open>Inl\<close>) or with a stream (\<open>Inr\<close>). With a stream
  in hand, \<open>new MediaRecorder(stream)\<close> and \<open>mediaRecorder.current.start()\<close> can still
  throw, inside the same \<open>try\<close>: \<open>recorder_outcome\<close> says which statement threw, if any.
  The \<open>catch\<close> logs and shows a toast; it stops no track, so the stream that was granted
  stays open.
\<close>

datatype recorder_outcome = Started | ConstructorThrows | StartThrows

definition startRecording_begin :: "state \<Rightarrow> state" where
  "startRecording_begin st = (invoke GetUserMedia st)\<lparr>pending := Suc (pending st)\<rparr>"

definition startRecording_catch :: "state \<Rightarrow> state" where
  "startRecording_catch st =
     toast_error ''Failed to start recording'' (console_error ''Error starting recording:'' st)"

definition startRecording_resume :: "js_error + recorder_outcome \<Rightarrow> state \<Rightarrow> state" where
  "startRecording_resume resp st =
     (let st1 = st\<lparr>pending := pending st - 1\<rparr>
      in case resp of
           Inl e \<Rightarrow> startRecording_catch st1
         | Inr outcome \<Rightarrow>
             (let st2 = st1\<lparr>acquired := Suc (acquired st1),
                            streams := streams st1 @ [acquired st1]\<rparr>
              in case outcome of
                   ConstructorThrows \<Rightarrow> startRecording_catch st2
                 | StartThrows \<Rightarrow>
                     startRecording_catch
                       (st2\<lparr>mediaRecorder := Some (acquired st1), audioChunks := []\<rparr>)
                 | Started \<Rightarrow>
                     toast_success ''Recording started''
                       (st2\<lparr>mediaRecorder := Some (acquired st1), audioChunks := [],
                            isRecording := True\<rparr>)))"

definition startRecording :: "js_error + recorder_outcome \<Rightarrow> state \<Rightarrow> state" where
  "startRecording resp st = startRecording_resume resp (startRecording_begin st)"

text \<open>\<open>mediaRecorder.current.ondataavailable\<close>.\<close>

definition ondataavailable :: "blob \<Rightarrow> state \<Rightarrow> state" where
  "ondataavailable chunk st = st\<lparr>audioChunks := audioChunks st @ [chunk]\<rparr>"

text \<open>
  \<open>stopRecording\<close> stops the recorder in the ref and the tracks of its stream. The browser
  then fires the recorder's \<open>onstop\<close>.
\<close>

definition stopRecording :: "state \<Rightarrow> state" where
  "stopRecording st =
     (case mediaRecorder st of
        Some r \<Rightarrow>
          if isRecording st
          then toast_success ''Recording stopped''
                 (st\<lparr>streams := removeAll r (streams st), isRecording := False\<rparr>)
          else st
      | None \<Rightarrow> st)"

text \<open>
  The record button: \<open>onClick={isRecording ? stopRecording : startRecording}\<close>,
  \<open>disabled={isTranscribing || isProcessing}\<close>.
\<close>

definition recordButton_onClick :: "state \<Rightarrow> state" where
  "recordButton_onClick st =
     (if isTranscribing st \<or> isProcessing st then st
      else if isRecording st then stopRecording st
      else startRecording_begin st)"

subsection \<open>VoiceRecorder: transcribeAudio\<close>

text \<open>
  \<open>rd\<close> is what the \<open>FileReader\<close> settles with (the base64 part of the data URL),
  \<open>tr\<close> what \<open>blink.ai.transcribeAudio\<close> settles with, \<open>cr\<close> what
  \<open>blink.ai.generateText\<close> settles with.
\<close>

definition transcribe_catch :: "state \<Rightarrow> state" where
  "transcribe_catch st =
     toast_error ''Failed to transcribe audio'' (console_error ''Error transcribing audio:'' st)"

definition transcribeAudio ::
  "DictionaryEntry list \<Rightarrow> blob \<Rightarrow> js_error + jsstring \<Rightarrow> js_error + jsstring \<Rightarrow>
     js_error + jsstring \<Rightarrow> state \<Rightarrow> state" where
  "transcribeAudio dict b rd tr cr st =
     (let st1 = invoke (ReadAsDataURL b) (st\<lparr>isTranscribing := True\<rparr>);
          st2 = (case rd of
                   Inl e \<Rightarrow> transcribe_catch st1
                 | Inr base64 \<Rightarrow>
                     (let st' = invoke (TranscribeAudio base64 ''en'') st1
                      in case tr of
                           Inl e \<Rightarrow> transcribe_catch st'
                         | Inr text \<Rightarrow> correctText dict text cr (st'\<lparr>originalText := text\<rparr>)))
      in st2\<lparr>isTranscribing := False\<rparr>)"

text \<open>\<open>mediaRecorder.current.onstop\<close>.\<close>

definition onstop ::
  "DictionaryEntry list \<Rightarrow> js_error + jsstring \<Rightarrow> js_error + jsstring \<Rightarrow>
     js_error + jsstring \<Rightarrow> state \<Rightarrow> state" where
  "onstop dict rd tr cr st =
     (let b = concat (audioChunks st)
      in transcribeAudio dict b rd tr cr (st\<lparr>audioBlob := Some b\<rparr>))"

subsection \<open>VoiceRecorder: saveNote, reprocessText, the text areas\<close>

text \<open>
  \<open>onSaveNote\<close> is the prop: it returns \<open>Inl\<close> when its promise rejects, which is what
  the \<open>catch\<close> of \<open>saveNote\<close> waits for.
\<close>

definition saveNote ::
  "(jsstring \<Rightarrow> jsstring \<Rightarrow> state \<Rightarrow> (js_error + unit) \<times> state) \<Rightarrow> state \<Rightarrow> state" where
  "saveNote onSaveNote st =
     (if originalText st = [] \<or> correctedText st = []
      then toast_error ''No text to save'' st
      else case onSaveNote (originalText st) (correctedText st) st of
             (Inr _, st1) \<Rightarrow>
               (toast_success ''Note saved!'' st1)
                 \<lparr>originalText := [], correctedText := [], audioBlob := None\<rparr>
           | (Inl e, st1) \<Rightarrow>
               toast_error ''Failed to save note'' (console_error ''Error saving note:'' st1))"

definition reprocessText ::
  "DictionaryEntry list \<Rightarrow> js_error + jsstring \<Rightarrow> state \<Rightarrow> state" where
  "reprocessText dict resp st =
     (if originalText st = [] then toast_error ''No text to reprocess'' st
      else correctText dict (originalText st) resp st)"

text \<open>The \<open>onChange\<close> handlers of the two text areas.\<close>

definition setOriginalText :: "jsstring \<Rightarrow> state \<Rightarrow> state" where
  "setOriginalText v st = st\<lparr>originalText := v\<rparr>"

definition setCorrectedText :: "jsstring \<Rightarrow> state \<Rightarrow> state" where
  "setCorrectedText v st = st\<lparr>correctedText := v\<rparr>"

subsection \<open>App: the stores\<close>

text \<open>
  \<open>now\<close> is \<open>new Date().toISOString()\<close>, \<open>resp\<close> what the database call settles with.
  Reading \<open>user.id\<close> while \<open>user\<close> is \<open>null\<close> throws inside the \<open>try\<close>, before the call.
  Every handler of \<open>App\<close> catches all errors and logs them: its promise never rejects.
\<close>

definition addNote ::
  "jsstring \<Rightarrow> js_error + VoiceNote \<Rightarrow> jsstring \<Rightarrow> jsstring \<Rightarrow> state \<Rightarrow>
     (js_error + unit) \<times> state" where
  "addNote now resp originalText' correctedText' st =
     (case user st of
        None \<Rightarrow> (Inr (), console_error ''Error adding note:'' st)
      | Some u \<Rightarrow>
          (let st1 = invoke (VoiceNotesCreate
                       \<lparr>original_text = originalText', corrected_text = correctedText',
                        vn_user_id = u_id u, vn_created_at = now\<rparr>) st
           in case resp of
                Inr newNote \<Rightarrow> (Inr (), st1\<lparr>notes_list := newNote # notes_list st1\<rparr>)
              | Inl e \<Rightarrow> (Inr (), console_error ''Error adding note:'' st1)))"

definition deleteNote ::
  "js_error + unit \<Rightarrow> jsstring \<Rightarrow> state \<Rightarrow> (js_error + unit) \<times> state" where
  "deleteNote resp ident st =
     (let st1 = invoke (VoiceNotesDelete ident) st
      in case resp of
           Inr _ \<Rightarrow>
             (Inr (), st1\<lparr>notes_list := filter (\<lambda>note. n_id note \<noteq> ident) (notes_list st1)\<rparr>)
         | Inl e \<Rightarrow> (Inr (), console_error ''Error deleting note:'' st1))"

text \<open>
  \<open>Array.prototype.sort\<close> with a comparator: a stable sort; the model is insertion
  sort. \<open>cmp a b \<le> 0\<close> keeps \<open>a\<close> before \<open>b\<close>.
\<close>

fun insertBy :: "('a \<Rightarrow> 'a \<Rightarrow> int) \<Rightarrow> 'a \<Rightarrow> 'a list \<Rightarrow> 'a list" where
  "insertBy cmp x [] = [x]"
| "insertBy cmp x (y # ys) = (if cmp x y \<le> 0 then x # y # ys else y # insertBy cmp x ys)"

definition array_sort :: "('a \<Rightarrow> 'a \<Rightarrow> int) \<Rightarrow> 'a list \<Rightarrow> 'a list" where
  "array_sort cmp xs = foldr (insertBy cmp) xs []"

text \<open>
  \<open>toLowerCase\<close> and \<open>localeCompare\<close> are the built-ins \<open>String.prototype.toLowerCase\<close>
  (Unicode case mapping) and \<open>String.prototype.localeCompare\<close> (the collation of the
  host's locale): parameters of the model.
\<close>

definition addDictionaryEntry ::
  "(jsstring \<Rightarrow> jsstring) \<Rightarrow> (jsstring \<Rightarrow> jsstring \<Rightarrow> int) \<Rightarrow> jsstring \<Rightarrow>
     js_error + DictionaryEntry \<Rightarrow> jsstring \<Rightarrow> jsstring \<Rightarrow> state \<Rightarrow>
     (js_error + unit) \<times> state" where
  "addDictionaryEntry toLowerCase localeCompare now resp word' correctSpelling' st =
     (case user st of
        None \<Rightarrow> (Inr (), console_error ''Error adding dictionary entry:'' st)
      | Some u \<Rightarrow>
          (let st1 = invoke (DictionaryEntriesCreate
                       \<lparr>word = toLowerCase word', correct_spelling = correctSpelling',
                        de_user_id = u_id u, de_created_at = now\<rparr>) st
           in case resp of
                Inr newEntry \<Rightarrow>
                  (Inr (),
                   st1\<lparr>dictionary :=
                         array_sort (\<lambda>a b. localeCompare (d_word a) (d_word b))
                           (dictionary st1 @ [newEntry])\<rparr>)
              | Inl e \<Rightarrow> (Inr (), console_error ''Error adding dictionary entry:'' st1)))"

subsection \<open>History: handleDeleteNote\<close>

text \<open>\<open>selectedNote\<close> is read from the closure, the state the handler was called in.\<close>

definition handleDeleteNote ::
  "(jsstring \<Rightarrow> state \<Rightarrow> (js_error + unit) \<times> state) \<Rightarrow> jsstring \<Rightarrow> state \<Rightarrow> state" where
  "handleDeleteNote onDeleteNote ident st =
     (case onDeleteNote ident st of
        (Inr _, st1) \<Rightarrow>
          (let st2 = toast_success ''Note deleted'' st1
           in if map_option n_id (selectedNote st) = Some ident
              then st2\<lparr>selectedNote := None\<rparr>
              else st2)
      | (Inl e, st1) \<Rightarrow>
          toast_error ''Failed to delete note'' (console_error ''Error deleting note:'' st1))"

subsection \<open>Dictionary: handleAddEntry\<close>

definition handleAddEntry ::
  "(jsstring \<Rightarrow> jsstring \<Rightarrow> state \<Rightarrow> (js_error + unit) \<times> state) \<Rightarrow> state \<Rightarrow> state" where
  "handleAddEntry onAddEntry st =
     (if trim (newWord st) = [] \<or> trim (correctSpelling st) = []
      then toast_error ''Please enter both word and correct spelling'' st
      else
        (let st1 = st\<lparr>isAdding := True\<rparr>;
             st2 = (case onAddEntry (trim (newWord st)) (trim (correctSpelling st)) st1 of
                      (Inr _, s) \<Rightarrow>
                        toast_success ''Dictionary entry added!''
                          (s\<lparr>newWord := [], correctSpelling := []\<rparr>)
                    | (Inl e, s) \<Rightarrow>
                        toast_error ''Failed to add entry''
                          (console_error ''Error adding entry:'' s))
         in st2\<lparr>isAdding := False\<rparr>))"

subsection \<open>The initial state\<close>

text \<open>The initial values of every \<open>useState\<close> and \<open>useRef\<close>; nothing called, no stream.\<close>

definition init_state :: state where
  "init_state =
     \<lparr>user = None, notes_list = [], dictionary = [],
      isRecording = False, isTranscribing = False, isProcessing = False,
      originalText = [], correctedText = [], audioBlob = None,
      mediaRecorder = None, audioChunks = [],
      selectedNote = None, newWord = [], correctSpelling = [], isAdding = False,
      pending = 0, streams = [], acquired = 0, calls = [], toasts = [], console = []\<rparr>"

subsection \<open>Example values\<close>

abbreviation example_user :: User where
  "example_user \<equiv> \<lparr>u_id = js ''u1'', u_email = js ''u1@example.org''\<rparr>"

abbreviation signed_in :: state where
  "signed_in \<equiv> init_state\<lparr>user := Some example_user\<rparr>"

text \<open>A recording was stopped, transcribed and corrected; nothing was edited since.\<close>

abbreviation transcribed :: state where
  "transcribed \<equiv>
     onstop [] (Inr (js ''QUJD'')) (Inr (js ''the nukular plant''))
       (Inr (js ''The nuclear plant.'')) signed_in"

abbreviation example_note :: "string \<Rightarrow> VoiceNote" where
  "example_note k \<equiv>
     \<lparr>n_id = js k, n_originalText = js ''the nukular plant'',
      n_correctedText = js ''The nuclear plant.'', n_createdAt = js ''2024-05-01T10:00:00.000Z'',
      n_userId = js ''u1''\<rparr>"

abbreviation example_entry :: "string \<Rightarrow> string \<Rightarrow> DictionaryEntry" where
  "example_entry k w \<equiv>
     \<lparr>d_id = js k, d_word = js w, d_correct_spelling = js ''nuclear'',
      d_user_id = js ''u1'', d_created_at = js ''2024-05-01T10:00:00.000Z''\<rparr>"

text \<open>
  The record button was pressed twice before the first microphone request settled;
  then both requests were granted and both recorders started.
\<close>

abbreviation pressed_twice :: state where
  "pressed_twice \<equiv> recordButton_onClick (recordButton_onClick init_state)"

abbreviation both_granted :: state where
  "both_granted \<equiv>
     startRecording_resume (Inr Started) (startRecording_resume (Inr Started) pressed_twice)"

text \<open>Stand-ins for the two built-ins: ASCII lower-casing, comparison by length.\<close>

abbreviation ascii_toLowerCase :: "jsstring \<Rightarrow> jsstring" where
  "ascii_toLowerCase \<equiv> map (\<lambda>c. if 0x41 \<le> c \<and> c \<le> 0x5A then c + 0x20 else c)"

abbreviation length_compare :: "jsstring \<Rightarrow> jsstring \<Rightarrow> int" where
  "length_compare \<equiv> (\<lambda>a b. int (length a) - int (length b))"

section \<open>Properties\<close>

lemmas effect_defs = invoke_def toast_success_def toast_error_def console_error_def

subsection \<open>Facts about trim\<close>

lemma trim_eq: "trim s = rev (dropWhile isWhiteSpace (rev (dropWhile isWhiteSpace s)))"
  by (simp add: trim_def trimEnd_def trimStart_def)

lemma trim_last: "trim s \<noteq> [] \<Longrightarrow> \<not> isWhiteSpace (last (trim s))"
proof -
  assume ne: "trim s \<noteq> []"
  let ?d = "dropWhile isWhiteSpace (rev (dropWhile isWhiteSpace s))"
  from ne have "?d \<noteq> []" by (simp add: trim_eq)
  then have "\<not> isWhiteSpace (hd ?d)" by (rule hd_dropWhile)
  moreover from \<open>?d \<noteq> []\<close> have "last (rev ?d) = hd ?d" by (simp add: last_rev)
  ultimately show ?thesis by (simp add: trim_eq)
qed

lemma trim_prefix: "trimStart s = trim s @ rev (takeWhile isWhiteSpace (rev (trimStart s)))"
proof -
  let ?t = "trimStart s"
  have "trim s @ rev (takeWhile isWhiteSpace (rev ?t)) =
        rev (takeWhile isWhiteSpace (rev ?t) @ dropWhile isWhiteSpace (rev ?t))"
    by (simp only: rev_append trim_def trimEnd_def)
  also have "\<dots> = rev (rev ?t)"
    by (simp only: takeWhile_dropWhile_id)
  finally show ?thesis by simp
qed

lemma trim_hd: "trim s \<noteq> [] \<Longrightarrow> \<not> isWhiteSpace (hd (trim s))"
proof -
  assume ne: "trim s \<noteq> []"
  have t: "trimStart s = trim s @ rev (takeWhile isWhiteSpace (rev (trimStart s)))"
    by (rule trim_prefix)
  with ne have "trimStart s \<noteq> []" by auto
  then have "\<not> isWhiteSpace (hd (trimStart s))"
    unfolding trimStart_def by (rule hd_dropWhile)
  moreover from ne
  have "hd (trim s @ rev (takeWhile isWhiteSpace (rev (trimStart s)))) = hd (trim s)"
    by simp
  ultimately show ?thesis using t by metis
qed

lemma trim_decomp:
  "s = takeWhile isWhiteSpace s @ trim s @ rev (takeWhile isWhiteSpace (rev (trimStart s)))"
proof -
  have "s = takeWhile isWhiteSpace s @ trimStart s"
    by (simp add: trimStart_def)
  then show ?thesis using trim_prefix [of s] by metis
qed

lemma spaces_takeWhile: "list_all isWhiteSpace (takeWhile isWhiteSpace s)"
  by (induction s) auto

lemma spaces_rev_takeWhile: "list_all isWhiteSpace (rev (takeWhile isWhiteSpace s))"
  using spaces_takeWhile [of s] by (simp add: list_all_iff)

subsection \<open>Facts about the sort\<close>

lemma set_insertBy: "set (insertBy cmp x xs) = insert x (set xs)"
  by (induction xs) auto

lemma mset_insertBy: "mset (insertBy cmp x xs) = add_mset x (mset xs)"
  by (induction xs) auto

lemma sorted_insertBy:
  assumes total: "\<forall>a b. cmp a b \<le> 0 \<or> cmp b a \<le> 0"
    and trans: "\<forall>a b c. cmp a b \<le> 0 \<longrightarrow> cmp b c \<le> 0 \<longrightarrow> cmp a c \<le> 0"
  shows "sorted_wrt (\<lambda>a b. cmp a b \<le> 0) xs \<Longrightarrow>
         sorted_wrt (\<lambda>a b. cmp a b \<le> 0) (insertBy cmp x xs)"
proof (induction xs)
  case Nil
  then show ?case by simp
next
  case (Cons y ys)
  show ?case
  proof (cases "cmp x y \<le> 0")
    case True
    with Cons.prems trans have "\<forall>z\<in>set ys. cmp x z \<le> 0" by auto
    with True Cons.prems show ?thesis by simp
  next
    case False
    with total have "cmp y x \<le> 0" by blast
    with False Cons show ?thesis by (simp add: set_insertBy)
  qed
qed

lemma sorted_array_sort:
  assumes total: "\<forall>a b. cmp a b \<le> 0 \<or> cmp b a \<le> 0"
    and trans: "\<forall>a b c. cmp a b \<le> 0 \<longrightarrow> cmp b c \<le> 0 \<longrightarrow> cmp a c \<le> 0"
  shows "sorted_wrt (\<lambda>a b. cmp a b \<le> 0) (array_sort cmp xs)"
  unfolding array_sort_def
  by (induction xs) (simp_all add: sorted_insertBy [OF total trans])

lemma mset_array_sort: "mset (array_sort cmp xs) = mset xs"
  unfolding array_sort_def by (induction xs) (simp_all add: mset_insertBy)

subsection \<open>Facts about the example state\<close>

lemma transcribed_texts:
  "originalText transcribed = js ''the nukular plant''"
  "correctedText transcribed = trim (js ''The nuclear plant.'')"
  "user transcribed = Some example_user"
  "notes_list transcribed = []"
  by (simp_all add: onstop_def transcribeAudio_def correctText_def effect_defs Let_def
        init_state_def)

lemma trim_example: "trim (js ''The nuclear plant.'') = js ''The nuclear plant.''"
  by code_simp

lemma js_nonempty: "js (c # cs) \<noteq> []"
  by (simp add: js_def)

lemma correctionPrompt_inj: "correctionPrompt dict a = correctionPrompt dict b \<longleftrightarrow> a = b"
  unfolding correctionPrompt_def by (simp del: append_assoc add: append_assoc [symmetric])

subsection \<open>Correction\<close>

text \<open>
  C1. When the Correction Client fails, \<open>correctText\<close> leaves in \<open>correctedText\<close> exactly
  the text it was called with, whatever that text is: the field is empty only when the
  text itself is. The failure is reported by a toast.
\<close>

theorem correctText_failure_fallback:
  "correctedText (correctText dict text (Inl e) st) = text \<and>
   (correctedText (correctText dict text (Inl e) st) = [] \<longleftrightarrow> text = []) \<and>
   toasts (correctText dict text (Inl e) st) = toasts st @ [ToastError ''Failed to correct text'']"
  by (simp add: correctText_def effect_defs Let_def)

text \<open>
  C10. When the Correction Client answers, \<open>correctedText\<close> is the answer trimmed: the
  answer is some white space, then \<open>correctedText\<close>, then some white space, and
  \<open>correctedText\<close> neither starts nor ends with white space. When the client fails,
  \<open>correctedText\<close> is the input text as it is, not trimmed.
\<close>

theorem correctText_success_trimmed:
  "correctedText (correctText dict text (Inr corrected) st) = trim corrected \<and>
   (trim corrected \<noteq> [] \<longrightarrow>
      \<not> isWhiteSpace (hd (trim corrected)) \<and> \<not> isWhiteSpace (last (trim corrected))) \<and>
   (\<exists>before after. corrected = before @ trim corrected @ after \<and>
      list_all isWhiteSpace before \<and> list_all isWhiteSpace after) \<and>
   correctedText (correctText dict text (Inl e) st) = text"
proof -
  have "\<exists>before after. corrected = before @ trim corrected @ after \<and>
      list_all isWhiteSpace before \<and> list_all isWhiteSpace after"
    using trim_decomp [of corrected] spaces_takeWhile spaces_rev_takeWhile by blast
  moreover have "correctedText (correctText dict text (Inr corrected) st) = trim corrected"
    by (simp add: correctText_def effect_defs Let_def)
  moreover have "correctedText (correctText dict text (Inl e) st) = text"
    by (simp add: correctText_def effect_defs Let_def)
  ultimately show ?thesis using trim_hd trim_last by blast
qed

text \<open>
  The answer \<open>" Hi. "\<close> is stored as \<open>"Hi."\<close>; with a failing client the input
  \<open>" hi "\<close> is stored with its spaces.
\<close>

theorem correctText_success_trimmed_witness:
  "trim (js '' Hi. '') \<noteq> [] \<and>
   correctedText (correctText [] (js '' hi '') (Inr (js '' Hi. '')) init_state) = js ''Hi.'' \<and>
   \<not> isWhiteSpace (hd (js ''Hi.'')) \<and> \<not> isWhiteSpace (last (js ''Hi.'')) \<and>
   correctedText (correctText [] (js '' hi '') (Inl ProviderError) init_state) = js '' hi '' \<and>
   trim (js '' hi '') \<noteq> js '' hi ''"
proof -
  have t: "trim (js '' Hi. '') = js ''Hi.''" by code_simp
  have u: "trim (js '' hi '') \<noteq> js '' hi ''" by code_simp
  have n: "js ''Hi.'' \<noteq> []" by (rule js_nonempty)
  show ?thesis
    using correctText_success_trimmed
      [of "[]" "js '' hi ''" "js '' Hi. ''" init_state ProviderError] t u n
    by simp
qed

text \<open>
  C7 as stated fails: the text area of the original text writes \<open>originalText\<close>, and
  \<open>reprocessText\<close> reads that field. After the transcript \<open>the nukular plant\<close> was
  edited to \<open>the solar plant\<close>, re-correct asks for a correction of the edited text,
  which is another prompt than the one of the transcript; after the field was emptied,
  re-correct calls nothing and a manual edit of \<open>correctedText\<close> stays.
\<close>

theorem reprocessText_unedited_transcript_counterexample:
  "originalText transcribed = js ''the nukular plant'' \<and>
   calls (reprocessText [] (Inr (js ''The solar plant.''))
            (setOriginalText (js ''the solar plant'') transcribed)) =
     calls transcribed @
       [GenerateText (correctionPrompt [] (js ''the solar plant'')) ''gpt-4o-mini'' 500] \<and>
   correctionPrompt [] (js ''the solar plant'') \<noteq> correctionPrompt [] (js ''the nukular plant'') \<and>
   calls (reprocessText [] (Inr (js ''The nuclear plant.''))
            (setCorrectedText (js ''my edit'') (setOriginalText [] transcribed))) =
     calls transcribed \<and>
   correctedText (reprocessText [] (Inr (js ''The nuclear plant.''))
            (setCorrectedText (js ''my edit'') (setOriginalText [] transcribed))) = js ''my edit''"
proof -
  have "js ''the solar plant'' \<noteq> js ''the nukular plant''"
    by (simp add: js_def)
  then have "correctionPrompt [] (js ''the solar plant'') \<noteq>
             correctionPrompt [] (js ''the nukular plant'')"
    by (simp add: correctionPrompt_inj)
  moreover have "originalText (setOriginalText (js ''the solar plant'') transcribed) \<noteq> []"
    by (simp add: setOriginalText_def js_def)
  ultimately show ?thesis
    by (simp add: transcribed_texts reprocessText_def setOriginalText_def setCorrectedText_def
          correctText_def effect_defs Let_def)
qed

text \<open>
  C7, amended. With a non-empty \<open>originalText\<close> field, re-correct calls the Correction
  Client once, on the current content of that field (the transcript as the user may have
  edited it), and replaces \<open>correctedText\<close> by the trimmed answer, or by that
  \<open>originalText\<close> when the client fails. \<open>originalText\<close> is not changed. What
  \<open>correctedText\<close> held before has no influence on the outcome (nothing is merged), and a
  second re-correct does not build on the first (nothing accumulates).
\<close>

theorem reprocessText_fresh_correction:
  "originalText st \<noteq> [] \<Longrightarrow>
     calls (reprocessText dict resp st) =
       calls st @ [GenerateText (correctionPrompt dict (originalText st)) ''gpt-4o-mini'' 500] \<and>
     correctedText (reprocessText dict resp st) =
       (case resp of Inr corrected \<Rightarrow> trim corrected | Inl e \<Rightarrow> originalText st) \<and>
     originalText (reprocessText dict resp st) = originalText st \<and>
     reprocessText dict resp (setCorrectedText edited st) = reprocessText dict resp st \<and>
     correctedText (reprocessText dict resp (reprocessText dict resp' st)) =
       correctedText (reprocessText dict resp st)"
  by (cases resp; cases resp')
     (simp_all add: reprocessText_def correctText_def setCorrectedText_def effect_defs Let_def)

theorem reprocessText_fresh_correction_witness:
  "originalText (setCorrectedText (js ''my edit'') transcribed) \<noteq> [] \<and>
   correctedText (reprocessText [] (Inr (js '' The nuclear plant. ''))
                    (setCorrectedText (js ''my edit'') transcribed)) = js ''The nuclear plant.'' \<and>
   originalText (reprocessText [] (Inr (js '' The nuclear plant. ''))
                    (setCorrectedText (js ''my edit'') transcribed)) = js ''the nukular plant''"
proof -
  have o: "originalText (setCorrectedText (js ''my edit'') transcribed) \<noteq> []"
    by (simp add: transcribed_texts setCorrectedText_def js_nonempty)
  have o': "originalText (setCorrectedText (js ''my edit'') transcribed) = js ''the nukular plant''"
    by (simp add: transcribed_texts setCorrectedText_def)
  have t: "trim (js '' The nuclear plant. '') = js ''The nuclear plant.''"
    by code_simp
  show ?thesis
    using o o' t reprocessText_fresh_correction [OF o, of "[]" "Inr (js '' The nuclear plant. '')"]
    by simp
qed

subsection \<open>Saving\<close>

text \<open>
  C3. With an empty \<open>originalText\<close> or an empty \<open>correctedText\<close>, \<open>saveNote\<close> does not
  call \<open>onSaveNote\<close>, whatever that prop is: nothing is called, both text fields and the
  note list stay as they are; the only effect is the error toast.
\<close>

theorem saveNote_rejects_empty:
  "originalText st = [] \<or> correctedText st = [] \<Longrightarrow>
     calls (saveNote onSaveNote st) = calls st \<and>
     originalText (saveNote onSaveNote st) = originalText st \<and>
     correctedText (saveNote onSaveNote st) = correctedText st \<and>
     notes_list (saveNote onSaveNote st) = notes_list st \<and>
     saveNote onSaveNote st = toast_error ''No text to save'' st"
  by (auto simp: saveNote_def effect_defs)

text \<open>An edit emptied \<open>correctedText\<close>; the store would have accepted the note.\<close>

theorem saveNote_rejects_empty_witness:
  "correctedText (setCorrectedText [] transcribed) = [] \<and>
   calls (saveNote (addNote (js ''2024-05-01T10:00:00.000Z'') (Inr (example_note ''n1'')))
            (setCorrectedText [] transcribed)) = calls transcribed \<and>
   originalText (saveNote (addNote (js ''2024-05-01T10:00:00.000Z'') (Inr (example_note ''n1'')))
            (setCorrectedText [] transcribed)) = js ''the nukular plant'' \<and>
   notes_list (saveNote (addNote (js ''2024-05-01T10:00:00.000Z'') (Inr (example_note ''n1'')))
            (setCorrectedText [] transcribed)) = []"
proof -
  have c: "correctedText (setCorrectedText [] transcribed) = []"
    by (simp add: setCorrectedText_def)
  then have "originalText (setCorrectedText [] transcribed) = [] \<or>
             correctedText (setCorrectedText [] transcribed) = []"
    by simp
  from saveNote_rejects_empty [OF this,
      of "addNote (js ''2024-05-01T10:00:00.000Z'') (Inr (example_note ''n1''))"] c
  show ?thesis
    by (simp add: setCorrectedText_def transcribed_texts effect_defs)
qed

lemma saveNote_after_store_failure:
  "originalText st \<noteq> [] \<Longrightarrow> correctedText st \<noteq> [] \<Longrightarrow>
     originalText (saveNote (addNote now (Inl e)) st) = [] \<and>
     correctedText (saveNote (addNote now (Inl e)) st) = [] \<and>
     audioBlob (saveNote (addNote now (Inl e)) st) = None \<and>
     notes_list (saveNote (addNote now (Inl e)) st) = notes_list st \<and>
     toasts (saveNote (addNote now (Inl e)) st) = toasts st @ [ToastSuccess ''Note saved!'']"
  by (simp add: saveNote_def addNote_def effect_defs Let_def split: option.split)

text \<open>
  C5 does not hold of the code. \<open>addNote\<close> catches the error of the store and returns
  normally, so the \<open>catch\<close> of \<open>saveNote\<close> never runs: with the texts
  \<open>the nukular plant\<close> and \<open>The nuclear plant.\<close> and a store that rejects the
  create call, \<open>saveNote\<close> empties both text fields and shows \<open>Note saved!\<close>. The note
  list is left as it was.
\<close>

theorem saveNote_store_failure_clears_fields:
  "originalText transcribed = js ''the nukular plant'' \<and>
   correctedText transcribed = js ''The nuclear plant.'' \<and>
   originalText (saveNote (addNote (js ''2024-05-01T10:00:00.000Z'') (Inl StoreError))
                   transcribed) = [] \<and>
   correctedText (saveNote (addNote (js ''2024-05-01T10:00:00.000Z'') (Inl StoreError))
                   transcribed) = [] \<and>
   notes_list (saveNote (addNote (js ''2024-05-01T10:00:00.000Z'') (Inl StoreError))
                   transcribed) = [] \<and>
   toasts (saveNote (addNote (js ''2024-05-01T10:00:00.000Z'') (Inl StoreError))
                   transcribed) = toasts transcribed @ [ToastSuccess ''Note saved!'']"
proof -
  have o: "originalText transcribed \<noteq> []"
    by (simp add: transcribed_texts js_nonempty)
  have c: "correctedText transcribed \<noteq> []"
    by (simp add: transcribed_texts trim_example js_nonempty)
  from saveNote_after_store_failure [OF o c] show ?thesis
    by (simp add: transcribed_texts trim_example)
qed

text \<open>
  C8. When both texts are non-empty, a user is signed in and the store answers the create
  call with the new note, \<open>saveNote\<close> (wired to \<open>addNote\<close>) hands the two texts to the
  store, puts the new note at the head of the note list and empties both text fields.
  From an empty list the list then has length 1 and the new note is its first element.
\<close>

theorem saveNote_success:
  "originalText st \<noteq> [] \<Longrightarrow> correctedText st \<noteq> [] \<Longrightarrow> user st = Some u \<Longrightarrow>
     originalText (saveNote (addNote now (Inr newNote)) st) = [] \<and>
     correctedText (saveNote (addNote now (Inr newNote)) st) = [] \<and>
     notes_list (saveNote (addNote now (Inr newNote)) st) = newNote # notes_list st \<and>
     calls (saveNote (addNote now (Inr newNote)) st) =
       calls st @ [VoiceNotesCreate \<lparr>original_text = originalText st,
                     corrected_text = correctedText st, vn_user_id = u_id u,
                     vn_created_at = now\<rparr>] \<and>
     (notes_list st = [] \<longrightarrow>
        length (notes_list (saveNote (addNote now (Inr newNote)) st)) = 1 \<and>
        hd (notes_list (saveNote (addNote now (Inr newNote)) st)) = newNote)"
  by (simp add: saveNote_def addNote_def effect_defs Let_def)

theorem saveNote_success_witness:
  "originalText transcribed \<noteq> [] \<and> correctedText transcribed \<noteq> [] \<and>
   user transcribed = Some example_user \<and> notes_list transcribed = [] \<and>
   originalText (saveNote (addNote (js ''2024-05-01T10:00:00.000Z'') (Inr (example_note ''n1'')))
                   transcribed) = [] \<and>
   correctedText (saveNote (addNote (js ''2024-05-01T10:00:00.000Z'') (Inr (example_note ''n1'')))
                   transcribed) = [] \<and>
   notes_list (saveNote (addNote (js ''2024-05-01T10:00:00.000Z'') (Inr (example_note ''n1'')))
                   transcribed) = [example_note ''n1''] \<and>
   length (notes_list (saveNote (addNote (js ''2024-05-01T10:00:00.000Z'')
                   (Inr (example_note ''n1''))) transcribed)) = 1"
proof -
  have o: "originalText transcribed \<noteq> []"
    by (simp add: transcribed_texts js_nonempty)
  have c: "correctedText transcribed \<noteq> []"
    by (simp add: transcribed_texts trim_example js_nonempty)
  have u: "user transcribed = Some example_user"
    by (rule transcribed_texts)
  have n: "notes_list transcribed = []"
    by (rule transcribed_texts)
  from saveNote_success [OF o c u, of "js ''2024-05-01T10:00:00.000Z''" "example_note ''n1''"]
    o c u n
  show ?thesis by simp
qed

subsection \<open>Deleting a note\<close>

text \<open>
  C9. \<open>handleDeleteNote\<close> wired to \<open>deleteNote\<close> asks the store to delete the note of the
  given id. If the selected note has that id, the selection is cleared, whatever the
  store answers. When the store confirms, the note list loses every note of that id.
\<close>

theorem handleDeleteNote_clears_selection:
  "(map_option n_id (selectedNote st) = Some ident \<longrightarrow>
      selectedNote (handleDeleteNote (deleteNote resp) ident st) = None) \<and>
   (resp = Inr () \<longrightarrow>
      notes_list (handleDeleteNote (deleteNote resp) ident st) =
        filter (\<lambda>note. n_id note \<noteq> ident) (notes_list st) \<and>
      ident \<notin> n_id ` set (notes_list (handleDeleteNote (deleteNote resp) ident st))) \<and>
   calls (handleDeleteNote (deleteNote resp) ident st) = calls st @ [VoiceNotesDelete ident]"
  by (cases resp) (auto simp: handleDeleteNote_def deleteNote_def effect_defs Let_def)

theorem handleDeleteNote_clears_selection_witness:
  "map_option n_id (selectedNote
      (signed_in\<lparr>notes_list := [example_note ''n2'', example_note ''n1''],
                 selectedNote := Some (example_note ''n1'')\<rparr>)) = Some (js ''n1'') \<and>
   selectedNote (handleDeleteNote (deleteNote (Inr ())) (js ''n1'')
      (signed_in\<lparr>notes_list := [example_note ''n2'', example_note ''n1''],
                 selectedNote := Some (example_note ''n1'')\<rparr>)) = None \<and>
   notes_list (handleDeleteNote (deleteNote (Inr ())) (js ''n1'')
      (signed_in\<lparr>notes_list := [example_note ''n2'', example_note ''n1''],
                 selectedNote := Some (example_note ''n1'')\<rparr>)) = [example_note ''n2'']"
proof -
  have "js ''n2'' \<noteq> js ''n1''"
    by (simp add: js_def)
  with handleDeleteNote_clears_selection
    [of "signed_in\<lparr>notes_list := [example_note ''n2'', example_note ''n1''],
                    selectedNote := Some (example_note ''n1'')\<rparr>" "js ''n1''" "Inr ()"]
  show ?thesis by simp
qed

subsection \<open>Transcription\<close>

text \<open>
  C6. When the Transcription Client fails (or the recording cannot even be read),
  the recorder's \<open>onstop\<close> handler ends with \<open>isTranscribing\<close> false and the other two
  flags, \<open>originalText\<close> and \<open>correctedText\<close> as they were. It has read the recording
  once and called the Transcription Client at most once; the Correction Client was not
  called. The error toast is shown. \<open>audioBlob\<close> still holds the recording, and the
  chunks it was built from are still in \<open>audioChunks\<close>. When nothing
  was recording or being corrected, the record button is enabled and starts a recording.
\<close>

theorem transcription_failure_idle:
  "isTranscribing (onstop dict rd (Inl e) cr st) = False \<and>
   isRecording (onstop dict rd (Inl e) cr st) = isRecording st \<and>
   isProcessing (onstop dict rd (Inl e) cr st) = isProcessing st \<and>
   originalText (onstop dict rd (Inl e) cr st) = originalText st \<and>
   correctedText (onstop dict rd (Inl e) cr st) = correctedText st \<and>
   calls (onstop dict rd (Inl e) cr st) =
     calls st @ ReadAsDataURL (concat (audioChunks st)) #
       (case rd of Inr base64 \<Rightarrow> [TranscribeAudio base64 ''en''] | Inl e' \<Rightarrow> []) \<and>
   toasts (onstop dict rd (Inl e) cr st) = toasts st @ [ToastError ''Failed to transcribe audio''] \<and>
   audioBlob (onstop dict rd (Inl e) cr st) = Some (concat (audioChunks st)) \<and>
   audioChunks (onstop dict rd (Inl e) cr st) = audioChunks st \<and>
   (\<not> isRecording st \<and> \<not> isProcessing st \<longrightarrow>
      recordButton_onClick (onstop dict rd (Inl e) cr st) =
        startRecording_begin (onstop dict rd (Inl e) cr st))"
  by (cases rd)
     (simp_all add: onstop_def transcribeAudio_def transcribe_catch_def recordButton_onClick_def
        effect_defs Let_def)

text \<open>Two chunks were recorded; the provider rejects the transcription.\<close>

theorem transcription_failure_idle_witness:
  "\<not> isRecording (signed_in\<lparr>audioChunks := [[1, 2], [3]]\<rparr>) \<and>
   \<not> isProcessing (signed_in\<lparr>audioChunks := [[1, 2], [3]]\<rparr>) \<and>
   audioBlob (onstop [] (Inr (js ''AQID'')) (Inl ProviderError) (Inr (js ''unused''))
                (signed_in\<lparr>audioChunks := [[1, 2], [3]]\<rparr>)) = Some [1, 2, 3] \<and>
   originalText (onstop [] (Inr (js ''AQID'')) (Inl ProviderError) (Inr (js ''unused''))
                (signed_in\<lparr>audioChunks := [[1, 2], [3]]\<rparr>)) = [] \<and>
   calls (onstop [] (Inr (js ''AQID'')) (Inl ProviderError) (Inr (js ''unused''))
                (signed_in\<lparr>audioChunks := [[1, 2], [3]]\<rparr>)) =
     [ReadAsDataURL [1, 2, 3], TranscribeAudio (js ''AQID'') ''en''] \<and>
   recordButton_onClick (onstop [] (Inr (js ''AQID'')) (Inl ProviderError) (Inr (js ''unused''))
                (signed_in\<lparr>audioChunks := [[1, 2], [3]]\<rparr>)) =
     startRecording_begin (onstop [] (Inr (js ''AQID'')) (Inl ProviderError) (Inr (js ''unused''))
                (signed_in\<lparr>audioChunks := [[1, 2], [3]]\<rparr>))"
  using transcription_failure_idle
    [of "[]" "Inr (js ''AQID'')" ProviderError "Inr (js ''unused'')"
        "signed_in\<lparr>audioChunks := [[1, 2], [3]]\<rparr>"]
  by (simp add: init_state_def)

subsection \<open>Recording\<close>

text \<open>
  What the record button does guard: a press while recording goes to \<open>stopRecording\<close>,
  so it calls nothing and opens no stream; \<open>stopRecording\<close> while not recording changes
  nothing.
\<close>

lemma recordButton_while_recording:
  "isRecording st \<Longrightarrow>
     calls (recordButton_onClick st) = calls st \<and>
     length (streams (recordButton_onClick st)) \<le> length (streams st)"
  by (auto simp: recordButton_onClick_def stopRecording_def effect_defs
        intro: le_trans [OF length_filter_le] split: option.splits)

lemma stopRecording_idle: "\<not> isRecording st \<Longrightarrow> stopRecording st = st"
  by (simp add: stopRecording_def split: option.splits)

text \<open>
  A recorder that throws after the grant leaves its stream open with \<open>isRecording\<close>
  false; the next recording then runs beside it.
\<close>

lemma recorder_throw_leaves_stream_open:
  "streams (startRecording (Inr StartThrows) init_state) = [0] \<and>
   \<not> isRecording (startRecording (Inr StartThrows) init_state) \<and>
   streams (startRecording (Inr Started) (startRecording (Inr StartThrows) init_state)) = [0, 1]"
  by (simp add: startRecording_def startRecording_begin_def startRecording_resume_def
        startRecording_catch_def init_state_def effect_defs)

text \<open>
  C4 does not hold of the code. The record button stays enabled, and \<open>isRecording\<close>
  false, while \<open>startRecording\<close> waits for the microphone. Pressed twice before the first
  request settles, the button starts \<open>startRecording\<close> twice and the microphone is asked
  for twice. When the first request is granted a recording is active; when the second is
  granted, the suspended \<open>startRecording\<close> resumes while that recording is active and
  opens a second stream beside the first: two capture sessions are active. The ref then
  holds the second recorder only, so the next press stops stream 1 and stream 0 stays
  open with \<open>isRecording\<close> false.
\<close>

theorem double_press_opens_two_streams:
  "calls pressed_twice = [GetUserMedia, GetUserMedia] \<and>
   pending pressed_twice = 2 \<and>
   \<not> isRecording pressed_twice \<and>
   isRecording (startRecording_resume (Inr Started) pressed_twice) \<and>
   streams (startRecording_resume (Inr Started) pressed_twice) = [0] \<and>
   streams both_granted = [0, 1] \<and>
   mediaRecorder both_granted = Some 1 \<and>
   calls both_granted = [GetUserMedia, GetUserMedia] \<and>
   streams (recordButton_onClick both_granted) = [0] \<and>
   \<not> isRecording (recordButton_onClick both_granted)"
  by (simp add: recordButton_onClick_def stopRecording_def startRecording_begin_def
        startRecording_resume_def init_state_def effect_defs)

subsection \<open>Adding a dictionary entry\<close>

text \<open>
  The form trims both inputs before it calls \<open>onAddEntry\<close>, and calls nothing when one
  of them is blank.
\<close>

lemma handleAddEntry_blank:
  "trim (newWord st) = [] \<or> trim (correctSpelling st) = [] \<Longrightarrow>
     handleAddEntry onAddEntry st = toast_error ''Please enter both word and correct spelling'' st"
  by (auto simp: handleAddEntry_def)

lemma handleAddEntry_calls:
  "trim (newWord st) \<noteq> [] \<Longrightarrow> trim (correctSpelling st) \<noteq> [] \<Longrightarrow> user st = Some u \<Longrightarrow>
     calls (handleAddEntry (addDictionaryEntry toLowerCase localeCompare now resp) st) =
       calls st @ [DictionaryEntriesCreate
         \<lparr>word = toLowerCase (trim (newWord st)), correct_spelling = trim (correctSpelling st),
          de_user_id = u_id u, de_created_at = now\<rparr>]"
  by (cases resp) (simp_all add: handleAddEntry_def addDictionaryEntry_def effect_defs Let_def)

text \<open>
  C2. Let \<open>localeCompare\<close> be a total and transitive comparison, and a user be signed in.
  \<open>addDictionaryEntry\<close> hands to the store a row whose word is \<open>toLowerCase\<close> of the
  word it was given. When the store answers with the new entry, the dictionary becomes
  the old entries and the new one, sorted ascending by word under \<open>localeCompare\<close>. When
  the store fails the dictionary is not changed, so a sorted dictionary stays sorted in
  either case.
\<close>

theorem addDictionaryEntry_lowercase_sorted:
  assumes total: "\<forall>a b. localeCompare a b \<le> 0 \<or> localeCompare b a \<le> 0"
    and trans: "\<forall>a b c. localeCompare a b \<le> 0 \<longrightarrow> localeCompare b c \<le> 0 \<longrightarrow>
                  localeCompare a c \<le> 0"
    and usr: "user st = Some u"
  shows
    "calls (snd (addDictionaryEntry toLowerCase localeCompare now resp w cs st)) =
       calls st @ [DictionaryEntriesCreate
         \<lparr>word = toLowerCase w, correct_spelling = cs, de_user_id = u_id u,
          de_created_at = now\<rparr>] \<and>
     (resp = Inr newEntry \<longrightarrow>
        sorted_wrt (\<lambda>a b. localeCompare (d_word a) (d_word b) \<le> 0)
          (dictionary (snd (addDictionaryEntry toLowerCase localeCompare now resp w cs st))) \<and>
        mset (dictionary (snd (addDictionaryEntry toLowerCase localeCompare now resp w cs st))) =
          add_mset newEntry (mset (dictionary st))) \<and>
     (sorted_wrt (\<lambda>a b. localeCompare (d_word a) (d_word b) \<le> 0) (dictionary st) \<longrightarrow>
        sorted_wrt (\<lambda>a b. localeCompare (d_word a) (d_word b) \<le> 0)
          (dictionary (snd (addDictionaryEntry toLowerCase localeCompare now resp w cs st))))"
proof -
  let ?cmp = "\<lambda>a b. localeCompare (d_word a) (d_word b)"
  have t: "\<forall>a b. ?cmp a b \<le> 0 \<or> ?cmp b a \<le> 0" using total by blast
  have r: "\<forall>a b c. ?cmp a b \<le> 0 \<longrightarrow> ?cmp b c \<le> 0 \<longrightarrow> ?cmp a c \<le> 0" using trans by blast
  have s: "sorted_wrt (\<lambda>a b. ?cmp a b \<le> 0) (array_sort ?cmp xs)"
    for xs :: "DictionaryEntry list"
    by (rule sorted_array_sort [OF t r])
  show ?thesis
    using usr s
    by (cases resp)
       (simp_all add: addDictionaryEntry_def effect_defs Let_def mset_array_sort)
qed

text \<open>
  The dictionary holds \<open>nukular\<close>; the word \<open>Atom\<close> is added and the store
  answers with the entry \<open>atom\<close>. Words are compared by length here.
\<close>

theorem addDictionaryEntry_lowercase_sorted_witness:
  "user (signed_in\<lparr>dictionary := [example_entry ''e1'' ''nukular'']\<rparr>) = Some example_user \<and>
   calls (snd (addDictionaryEntry ascii_toLowerCase length_compare
           (js ''2024-05-01T10:00:00.000Z'') (Inr (example_entry ''e2'' ''atom''))
           (js ''Atom'') (js ''atom'')
           (signed_in\<lparr>dictionary := [example_entry ''e1'' ''nukular'']\<rparr>))) =
     [DictionaryEntriesCreate \<lparr>word = js ''atom'', correct_spelling = js ''atom'',
        de_user_id = js ''u1'', de_created_at = js ''2024-05-01T10:00:00.000Z''\<rparr>] \<and>
   sorted_wrt (\<lambda>a b. length_compare (d_word a) (d_word b) \<le> 0)
     (dictionary (snd (addDictionaryEntry ascii_toLowerCase length_compare
           (js ''2024-05-01T10:00:00.000Z'') (Inr (example_entry ''e2'' ''atom''))
           (js ''Atom'') (js ''atom'')
           (signed_in\<lparr>dictionary := [example_entry ''e1'' ''nukular'']\<rparr>)))) \<and>
   mset (dictionary (snd (addDictionaryEntry ascii_toLowerCase length_compare
           (js ''2024-05-01T10:00:00.000Z'') (Inr (example_entry ''e2'' ''atom''))
           (js ''Atom'') (js ''atom'')
           (signed_in\<lparr>dictionary := [example_entry ''e1'' ''nukular'']\<rparr>)))) =
     {#example_entry ''e2'' ''atom'', example_entry ''e1'' ''nukular''#}"
proof -
  have total: "\<forall>a b. length_compare a b \<le> 0 \<or> length_compare b a \<le> 0"
    by auto
  have trans: "\<forall>a b c. length_compare a b \<le> 0 \<longrightarrow> length_compare b c \<le> 0 \<longrightarrow>
      length_compare a c \<le> 0"
    by auto
  have usr: "user (signed_in\<lparr>dictionary := [example_entry ''e1'' ''nukular'']\<rparr>) =
      Some example_user"
    by simp
  have low: "ascii_toLowerCase (js ''Atom'') = js ''atom''"
    by (simp add: js_def)
  from addDictionaryEntry_lowercase_sorted [OF total trans usr,
      of ascii_toLowerCase "js ''2024-05-01T10:00:00.000Z''"
         "Inr (example_entry ''e2'' ''atom'')" "js ''Atom''" "js ''atom''"
         "example_entry ''e2'' ''atom''"] low
  show ?thesis
    by (simp add: init_state_def)
qed

end
